theory Spec2Isabelle
  imports Complex_Main
begin

section \<open>JavaScript values used by the booking code\<close>

text \<open>
  A JavaScript \<open>Date\<close> holds a time value: an integral number of milliseconds since the
  epoch, or NaN (an "Invalid Date").  A valid time value is an \<open>int\<close>; a \<open>Date\<close> object
  is an \<open>int option\<close>, with \<open>None\<close> for the Invalid Date.  Every comparison of a NaN is
  false, which the models below write out at each comparison.

  The local time zone is a parameter: \<open>z t True\<close> is the offset (in ms) of local time from
  UTC at the UTC instant \<open>t\<close>, and \<open>z t False\<close> the offset at the local time \<open>t\<close>
  (ECMAScript's LocalTZA).

  Amounts of money are JavaScript Numbers.  They are modelled as reals; the only
  arithmetic done on an amount is the multiplication by 0.5, which is exact in binary
  floating point (but for the underflow at the smallest subnormal numbers).  Differences of time values are integers far below \<open>2^53\<close>, so the
  quotient by 3600000 compares with 2, 4 and 24 as the exact quotient does.
\<close>

type_synonym jsdate = "int option"
type_synonym tza = "int \<Rightarrow> bool \<Rightarrow> int"

datatype js_error = RangeError | TypeError | ValidationError | Error string

definition msPerDay :: int where
  "msPerDay = 86400000"

definition msPerHour :: int where
  "msPerHour = 3600000"

definition msPerMinute :: int where
  "msPerMinute = 60000"

definition timeClip :: "int \<Rightarrow> jsdate" where
  "timeClip t = (if \<bar>t\<bar> > 8640000000000000 then None else Some t)"

definition localTime :: "tza \<Rightarrow> int \<Rightarrow> int" where
  "localTime z t = t + z t True"

definition utcTime :: "tza \<Rightarrow> int \<Rightarrow> int" where
  "utcTime z t = t - z t False"

definition day_of :: "int \<Rightarrow> int" where
  "day_of t = t div msPerDay"

subsection \<open>\<open>String.prototype.split(':')\<close> and \<open>parseInt\<close>\<close>

fun split_on :: "char \<Rightarrow> string \<Rightarrow> string \<Rightarrow> string list" where
  "split_on sep acc [] = [rev acc]"
| "split_on sep acc (c # cs) =
     (if c = sep then rev acc # split_on sep [] cs else split_on sep (c # acc) cs)"

definition split_colon :: "string \<Rightarrow> string list" where
  "split_colon s = split_on (CHR '':'') [] s"

definition isWhiteSpace :: "char \<Rightarrow> bool" where
  "isWhiteSpace c = (c \<in> set [CHR '' '', CHR 0x09, CHR 0x0A, CHR 0x0B, CHR 0x0C, CHR 0x0D])"

definition digitValue :: "nat \<Rightarrow> char \<Rightarrow> nat option" where
  "digitValue radix c =
     (let n = (of_char c :: nat);
          v = (if 48 \<le> n \<and> n \<le> 57 then Some (n - 48)
               else if 97 \<le> n \<and> n \<le> 122 then Some (n - 87)
               else if 65 \<le> n \<and> n \<le> 90 then Some (n - 55)
               else None)
      in case v of None \<Rightarrow> None | Some d \<Rightarrow> if d < radix then Some d else None)"

fun digitPrefix :: "nat \<Rightarrow> string \<Rightarrow> nat list" where
  "digitPrefix radix [] = []"
| "digitPrefix radix (c # cs) =
     (case digitValue radix c of None \<Rightarrow> [] | Some d \<Rightarrow> d # digitPrefix radix cs)"

text \<open>
  \<open>parseInt(s)\<close> with no radix argument: leading white space is skipped, then an optional
  sign, then an optional \<open>0x\<close>/\<open>0X\<close> (which selects radix 16), then the longest prefix of
  digits.  No digit gives NaN (\<open>None\<close>).  The value is the exact integer (a Number is
  exact below \<open>2^53\<close>).  White space is the ASCII white space.
\<close>

definition parseInt :: "string \<Rightarrow> int option" where
  "parseInt s =
     (let s1 = dropWhile isWhiteSpace s;
          sgn = (case s1 of c # _ \<Rightarrow> if c = CHR ''-'' then (-1::int) else 1 | [] \<Rightarrow> 1);
          s2 = (case s1 of c # r \<Rightarrow> if c = CHR ''-'' \<or> c = CHR ''+'' then r else s1 | [] \<Rightarrow> s1);
          hex = (take 2 s2 = ''0x'' \<or> take 2 s2 = ''0X'');
          radix = (if hex then 16 else 10);
          s3 = (if hex then drop 2 s2 else s2);
          ds = digitPrefix radix s3
      in if ds = [] then None
         else Some (sgn * int (foldl (\<lambda>a d. a * radix + d) 0 ds)))"

section \<open>The Booking model (\<open>server/models/Booking.js\<close>)\<close>

datatype booking_status = Pending | Confirmed | InProgress | Completed | Cancelled | NoShow

datatype payment_status = PaymentPending | PaymentSucceeded | PaymentFailed | PaymentCancelled

datatype cancel_actor = ByCustomer | ByProvider | BySystem

datatype reschedule_actor = RescheduledByCustomer | RescheduledByProvider

datatype refund_status = RefundPending | RefundProcessed | RefundFailed

record service_snapshot =
  serviceName :: string
  serviceDescription :: "string option"
  serviceDuration :: int
  servicePrice :: real

record payment =
  stripePaymentIntentId :: "string option"
  amount :: real
  currency :: string
  paymentStatus :: payment_status
  paidAt :: "int option"

record cancellation =
  cancelledBy :: cancel_actor
  cancelledAt :: int
  cancelReason :: "string option"
  refundAmount :: real
  refundStatus :: refund_status

record reschedule_entry =
  originalDate :: int
  originalStartTime :: string
  originalEndTime :: string
  newDate :: int
  newStartTime :: string
  newEndTime :: string
  rescheduleReason :: "string option"
  rescheduledAt :: int
  rescheduledBy :: reschedule_actor

record booking =
  bookingId :: nat
  customer :: nat
  provider :: nat
  service :: service_snapshot
  appointmentDate :: int
  startTime :: string
  endTime :: string
  status :: booking_status
  bookingNotes :: "string option"
  providerNotes :: "string option"
  payment :: payment
  cancellation :: "cancellation option"
  rescheduleHistory :: "reschedule_entry list"

text \<open>
  The virtual \<open>appointmentDateTime\<close>: a copy of \<open>appointmentDate\<close> whose local hours and
  minutes are set from \<open>startTime\<close> by \<open>setHours(parseInt(hours), parseInt(minutes), 0, 0)\<close>.
  \<open>setHours\<close> keeps the local day, replaces the time within the day, converts back to UTC
  and clips; a NaN argument gives the Invalid Date.  A \<open>startTime\<close> with no colon leaves
  \<open>minutes\<close> undefined, and \<open>parseInt(undefined)\<close> is NaN.
\<close>

definition setHours :: "tza \<Rightarrow> int \<Rightarrow> int option \<Rightarrow> int option \<Rightarrow> jsdate" where
  "setHours z t hours minutes =
     (case (hours, minutes) of
        (Some h, Some m) \<Rightarrow>
          timeClip (utcTime z (day_of (localTime z t) * msPerDay + (h * msPerHour + m * msPerMinute)))
      | _ \<Rightarrow> None)"

definition appointmentDateTime :: "tza \<Rightarrow> booking \<Rightarrow> jsdate" where
  "appointmentDateTime z b =
     (case split_colon (startTime b) of
        [] \<Rightarrow> None
      | hours # rest \<Rightarrow>
          setHours z (appointmentDate b) (parseInt hours)
            (case rest of [] \<Rightarrow> None | minutes # _ \<Rightarrow> parseInt minutes))"

text \<open>
  \<open>hoursUntilAppointment = (appointmentTime - now) / (1000 * 60 * 60)\<close>; \<open>None\<close> is NaN.
\<close>

definition hoursUntilAppointment :: "tza \<Rightarrow> booking \<Rightarrow> int \<Rightarrow> real option" where
  "hoursUntilAppointment z b now =
     (case appointmentDateTime z b of
        None \<Rightarrow> None
      | Some t \<Rightarrow> Some (real_of_int (t - now) / (1000 * 60 * 60)))"

definition canBeCancelled :: "tza \<Rightarrow> booking \<Rightarrow> int \<Rightarrow> bool" where
  "canBeCancelled z b now =
     ((case hoursUntilAppointment z b now of None \<Rightarrow> False | Some h \<Rightarrow> h > 2)
      \<and> status b = Confirmed)"

definition canBeRescheduled :: "tza \<Rightarrow> booking \<Rightarrow> int \<Rightarrow> bool" where
  "canBeRescheduled z b now =
     ((case hoursUntilAppointment z b now of None \<Rightarrow> False | Some h \<Rightarrow> h > 4)
      \<and> status b = Confirmed)"

definition calculateRefund :: "tza \<Rightarrow> booking \<Rightarrow> int \<Rightarrow> real" where
  "calculateRefund z b now =
     (case hoursUntilAppointment z b now of
        None \<Rightarrow> 0
      | Some h \<Rightarrow>
          if h > 24 then amount (payment b)
          else if h > 2 then amount (payment b) * 0.5
          else 0)"


text \<open>
  \<open>save()\<close> of a booking document, new or loaded.  Mongoose first validates the document
  against the schema and rejects the save with a ValidationError; then the \<open>pre('save')\<close>
  hook of the schema runs, at every save.  Of the schema's validators, the types of the
  record leave these to fail: a \<open>required\<close> string must not be empty (\<open>service.name\<close>,
  \<open>startTime\<close>, \<open>endTime\<close>), and \<open>notes\<close> has \<open>maxlength: 500\<close>; the enums are datatypes
  and the other required fields are always present.  The collection is a list of
  documents; saving replaces the document with the same \<open>_id\<close>, or appends a new one.
\<close>

definition validateBooking :: "booking \<Rightarrow> js_error option" where
  "validateBooking b =
     (if serviceName (service b) = [] \<or> startTime b = [] \<or> endTime b = []
         \<or> (case bookingNotes b of None \<Rightarrow> False | Some n \<Rightarrow> length n > 500)
      then Some ValidationError else None)"

definition preSave :: "int \<Rightarrow> booking \<Rightarrow> js_error option" where
  "preSave now b =
     (if appointmentDate b < now then Some (Error ''Appointment date cannot be in the past'')
      else None)"

fun replaceDoc :: "booking \<Rightarrow> booking list \<Rightarrow> booking list" where
  "replaceDoc b [] = [b]"
| "replaceDoc b (x # xs) = (if bookingId x = bookingId b then b # xs else x # replaceDoc b xs)"

definition save :: "int \<Rightarrow> booking \<Rightarrow> booking list \<Rightarrow> js_error + booking list" where
  "save now b bookings =
     (case validateBooking b of
        Some e \<Rightarrow> Inl e
      | None \<Rightarrow>
          (case preSave now b of Some e \<Rightarrow> Inl e | None \<Rightarrow> Inr (replaceDoc b bookings)))"

definition findById :: "nat \<Rightarrow> booking list \<Rightarrow> booking option" where
  "findById i bookings = find (\<lambda>b. bookingId b = i) bookings"

section \<open>The Provider model (\<open>server/models/Provider.js\<close>)\<close>

record provider_service =
  svcName :: string
  svcDescription :: "string option"
  svcDuration :: int
  svcPrice :: real
  svcIsActive :: bool

text \<open>
  The schema lists the seven lower-case day names as the \<open>enum\<close> of \<open>day\<close>, but
  \<open>PUT /api/providers/availability\<close> writes the working days of the request body with
  \<open>findByIdAndUpdate\<close>, which runs no validators: a stored \<open>day\<close> is any string.  (A
  missing \<open>day\<close> equals no day name, as the empty string does.)
\<close>

record working_day =
  day :: string
  wdStartTime :: string
  wdEndTime :: string
  isAvailable :: bool

record blocked_date =
  blockedDate :: int
  blockedReason :: "string option"

record time_slot =
  slotStartTime :: string
  slotEndTime :: string
  slotIsAvailable :: bool

record provider_doc =
  providerId :: nat
  providerUser :: nat
  services :: "provider_service list"
  workingDays :: "working_day list"
  blockedDates :: "blocked_date list"

subsection \<open>The \<open>Date\<close> built-ins the methods call\<close>

text \<open>
  \<open>date.toLocaleDateString('en-US', { weekday: w })\<close>, after ECMA-402
  (\<open>Date.prototype.toLocaleDateString\<close>): an Invalid Date returns the string
  \<open>Invalid Date\<close> before the options are read; otherwise a date-time format is created
  from the options, and reading the option \<open>weekday\<close> accepts the values \<open>narrow\<close>,
  \<open>short\<close> and \<open>long\<close> and throws a RangeError at any other string.  With only
  \<open>weekday\<close> given, the result is the English name of the local day of the week.
\<close>

definition weekDay :: "int \<Rightarrow> nat" where
  "weekDay t = nat ((day_of t + 4) mod 7)"

definition weekdayLong :: "string list" where
  "weekdayLong =
     [''Sunday'', ''Monday'', ''Tuesday'', ''Wednesday'', ''Thursday'', ''Friday'', ''Saturday'']"

definition weekdayShort :: "string list" where
  "weekdayShort = [''Sun'', ''Mon'', ''Tue'', ''Wed'', ''Thu'', ''Fri'', ''Sat'']"

definition weekdayNarrow :: "string list" where
  "weekdayNarrow = [''S'', ''M'', ''T'', ''W'', ''T'', ''F'', ''S'']"

definition toLocaleDateString :: "tza \<Rightarrow> jsdate \<Rightarrow> string \<Rightarrow> js_error + string" where
  "toLocaleDateString z d weekdayOption =
     (case d of
        None \<Rightarrow> Inr ''Invalid Date''
      | Some t \<Rightarrow>
          if weekdayOption = ''long'' then Inr (weekdayLong ! weekDay (localTime z t))
          else if weekdayOption = ''short'' then Inr (weekdayShort ! weekDay (localTime z t))
          else if weekdayOption = ''narrow'' then Inr (weekdayNarrow ! weekDay (localTime z t))
          else Inl RangeError)"

text \<open>
  \<open>toDateString()\<close> prints the local calendar day (\<open>Mon Jun 10 2024\<close>), or
  \<open>Invalid Date\<close>.  Two such strings are equal iff both dates are invalid or both fall
  on the same local day, so the string is represented by the local day number.
\<close>

definition toDateString :: "tza \<Rightarrow> jsdate \<Rightarrow> int option" where
  "toDateString z d = (case d of None \<Rightarrow> None | Some t \<Rightarrow> Some (day_of (localTime z t)))"

text \<open>
  \<open>new Date(`2000-01-01T${s}`)\<close> for a clock string \<open>s\<close> in the schema's \<open>HH:MM\<close> format
  (two digits, a colon, two digits; hours up to 23 and minutes up to 59, or \<open>24:00\<close>):
  the local time of that day.  Every other string is taken to give the Invalid Date; the
  further forms of the ISO format (seconds, fractions, offsets) and the engines' legacy
  formats are not modelled.
\<close>

definition isDigit :: "char \<Rightarrow> bool" where
  "isDigit c = (48 \<le> (of_char c :: nat) \<and> (of_char c :: nat) \<le> 57)"

definition digitOf :: "char \<Rightarrow> int" where
  "digitOf c = int (of_char c) - 48"

definition parseClock :: "tza \<Rightarrow> string \<Rightarrow> jsdate" where
  "parseClock z s =
     (case s of
        [h1, h2, c, m1, m2] \<Rightarrow>
          if isDigit h1 \<and> isDigit h2 \<and> c = CHR '':'' \<and> isDigit m1 \<and> isDigit m2
             \<and> (digitOf h1 * 10 + digitOf h2 \<le> 23 \<and> digitOf m1 * 10 + digitOf m2 \<le> 59
                  \<or> digitOf h1 * 10 + digitOf h2 = 24 \<and> digitOf m1 * 10 + digitOf m2 = 0)
          then timeClip (utcTime z (10957 * msPerDay
                  + ((digitOf h1 * 10 + digitOf h2) * msPerHour
                     + (digitOf m1 * 10 + digitOf m2) * msPerMinute)))
          else None
      | _ \<Rightarrow> None)"

text \<open>\<open>toTimeString().slice(0, 5)\<close>: the local \<open>HH:MM\<close>, or \<open>Inval\<close> for the Invalid Date.\<close>

definition twoDigits :: "int \<Rightarrow> string" where
  "twoDigits n = [''0123456789'' ! nat (n div 10 mod 10), ''0123456789'' ! nat (n mod 10)]"

definition toTimeString5 :: "tza \<Rightarrow> jsdate \<Rightarrow> string" where
  "toTimeString5 z d =
     (case d of
        None \<Rightarrow> ''Inval''
      | Some t \<Rightarrow>
          (let m = (localTime z t mod msPerDay) div msPerMinute
           in twoDigits (m div 60) @ '':'' @ twoDigits (m mod 60)))"

text \<open>Comparisons of two \<open>Date\<close> objects: false when either is the Invalid Date.\<close>

definition date_lt :: "jsdate \<Rightarrow> jsdate \<Rightarrow> bool" where
  "date_lt a b = (case (a, b) of (Some x, Some y) \<Rightarrow> x < y | _ \<Rightarrow> False)"

definition date_le :: "jsdate \<Rightarrow> jsdate \<Rightarrow> bool" where
  "date_le a b = (case (a, b) of (Some x, Some y) \<Rightarrow> x \<le> y | _ \<Rightarrow> False)"

subsection \<open>\<open>isAvailableAt\<close> and \<open>getAvailableSlots\<close>\<close>

definition isBlocked :: "tza \<Rightarrow> provider_doc \<Rightarrow> jsdate \<Rightarrow> bool" where
  "isBlocked z p d =
     list_ex (\<lambda>blocked. toDateString z (Some (blockedDate blocked)) = toDateString z d)
       (blockedDates p)"

definition isAvailableAt :: "tza \<Rightarrow> provider_doc \<Rightarrow> jsdate \<Rightarrow> string \<Rightarrow> js_error + bool" where
  "isAvailableAt z p d time =
     (case toLocaleDateString z d ''lowercase'' of
        Inl e \<Rightarrow> Inl e
      | Inr dayName \<Rightarrow>
          (case find (\<lambda>wd. day wd = dayName) (workingDays p) of
             None \<Rightarrow> Inr False
           | Some workingDay \<Rightarrow>
               if \<not> isAvailable workingDay then Inr False
               else if isBlocked z p d then Inr False
               else
                 (let requestedTime = parseClock z time;
                      startT = parseClock z (wdStartTime workingDay);
                      endT = parseClock z (wdEndTime workingDay)
                  in Inr (date_le startT requestedTime \<and> date_lt requestedTime endT))))"

text \<open>
  The slot loop of \<open>getAvailableSlots\<close>, on valid time values: it runs while
  \<open>currentTime < endTime\<close>, pushes a slot when \<open>slotEnd <= endTime\<close>, and continues from
  \<open>slotEnd\<close>.
\<close>

definition slotDuration :: int where
  "slotDuration = 30"

function slotLoop :: "tza \<Rightarrow> int \<Rightarrow> int \<Rightarrow> time_slot list" where
  "slotLoop z currentTime endT =
     (if currentTime < endT then
        (let slotEnd = currentTime + slotDuration * 60000
         in (if slotEnd \<le> endT
             then [\<lparr> slotStartTime = toTimeString5 z (timeClip currentTime),
                      slotEndTime = toTimeString5 z (timeClip slotEnd),
                      slotIsAvailable = True \<rparr>]
             else [])
            @ slotLoop z slotEnd endT)
      else [])"
  by pat_completeness auto
termination
  by (relation "measure (\<lambda>(z, c, e). nat (e - c))") (auto simp: slotDuration_def)

definition getAvailableSlots :: "tza \<Rightarrow> provider_doc \<Rightarrow> jsdate \<Rightarrow> js_error + time_slot list" where
  "getAvailableSlots z p d =
     (case toLocaleDateString z d ''lowercase'' of
        Inl e \<Rightarrow> Inl e
      | Inr dayName \<Rightarrow>
          (case find (\<lambda>wd. day wd = dayName) (workingDays p) of
             None \<Rightarrow> Inr []
           | Some workingDay \<Rightarrow>
               if \<not> isAvailable workingDay then Inr []
               else if isBlocked z p d then Inr []
               else
                 (case (parseClock z (wdStartTime workingDay), parseClock z (wdEndTime workingDay)) of
                    (Some startT, Some endT) \<Rightarrow> Inr (slotLoop z startT endT)
                  | _ \<Rightarrow> Inr [])))"


section \<open>The route handlers (\<open>routes/bookings.js\<close>, \<open>routes/payments.js\<close>)\<close>

text \<open>
  A handler runs inside \<open>try { ... } catch (error) { console.error(...); res.status(500) }\<close>.
  Its outcome is the booking of the success response, or \<open>Http code message\<close> for an
  error response the handler sends itself, or \<open>Caught e\<close> for the response 500 sent by
  the \<open>catch\<close> block after logging the exception \<open>e\<close>.  Each handler returns its outcome
  together with the bookings collection as it is afterwards.  All readings of the clock
  within one request are the same instant \<open>now\<close>.  References between documents are taken
  to resolve (\<open>populate\<close> finds the customer).
\<close>

datatype user_role = customer_role | provider_role | admin_role

record user_doc =
  userId :: nat
  role :: user_role

record request_auth =
  reqUser :: user_doc
  reqProvider :: "nat option"

datatype route_error = Http nat string | Caught js_error

type_synonym route_result = "(route_error + booking) \<times> booking list"

definition trim :: "string \<Rightarrow> string" where
  "trim s = rev (dropWhile isWhiteSpace (rev (dropWhile isWhiteSpace s)))"

definition optionalMaxLength :: "nat \<Rightarrow> string option \<Rightarrow> bool" where
  "optionalMaxLength n v = (case v of None \<Rightarrow> True | Some x \<Rightarrow> length x \<le> n)"

text \<open>The validator's pattern \<open>/^([0-1]?[0-9]|2[0-3]):[0-5][0-9]$/\<close>.\<close>

definition matchesTimePattern :: "string \<Rightarrow> bool" where
  "matchesTimePattern s =
     (case s of
        [h, c, m1, m2] \<Rightarrow>
          isDigit h \<and> c = CHR '':'' \<and> isDigit m1 \<and> digitOf m1 \<le> 5 \<and> isDigit m2
      | [h1, h2, c, m1, m2] \<Rightarrow>
          (((h1 = CHR ''0'' \<or> h1 = CHR ''1'') \<and> isDigit h2)
            \<or> (h1 = CHR ''2'' \<and> isDigit h2 \<and> digitOf h2 \<le> 3))
          \<and> c = CHR '':'' \<and> isDigit m1 \<and> digitOf m1 \<le> 5 \<and> isDigit m2
      | _ \<Rightarrow> False)"

text \<open>
  The conflict query
  \<open>Booking.findOne({ provider, appointmentDate, startTime, status: { $in: ['confirmed', 'pending'] } })\<close>,
  with \<open>_id: { $ne: booking._id }\<close> added by the reschedule handler.
\<close>

definition existingBooking ::
  "booking list \<Rightarrow> nat \<Rightarrow> int \<Rightarrow> string \<Rightarrow> nat option \<Rightarrow> booking option" where
  "existingBooking bookings pid d st excluded =
     find (\<lambda>b. provider b = pid \<and> appointmentDate b = d \<and> startTime b = st
                \<and> (status b = Confirmed \<or> status b = Pending)
                \<and> (case excluded of None \<Rightarrow> True | Some i \<Rightarrow> bookingId b \<noteq> i))
       bookings"

definition castError :: js_error where
  "castError = Error ''Cast to date failed for value \"Invalid Date\"''"

subsection \<open>\<open>POST /api/bookings\<close>\<close>

record create_body =
  crProviderId :: nat
  crServiceName :: string
  crAppointmentDate :: jsdate
  crStartTime :: string
  crNotes :: "string option"

text \<open>
  \<open>crAppointmentDate\<close> is \<open>new Date(appointmentDate)\<close> of the body string, which has passed
  \<open>isISO8601()\<close>; \<open>newId\<close> is the \<open>_id\<close> the new document gets.
\<close>

definition createBooking ::
  "tza \<Rightarrow> int \<Rightarrow> provider_doc list \<Rightarrow> booking list \<Rightarrow> nat \<Rightarrow> request_auth \<Rightarrow> create_body
     \<Rightarrow> route_result" where
  "createBooking z now providers bookings newId req body =
     (if \<not> (trim (crServiceName body) \<noteq> [] \<and> matchesTimePattern (crStartTime body)
             \<and> optionalMaxLength 500 (crNotes body))
      then (Inl (Http 400 ''validation errors''), bookings)
      else
        case find (\<lambda>p. providerId p = crProviderId body) providers of
          None \<Rightarrow> (Inl (Http 404 ''Provider not found''), bookings)
        | Some prov \<Rightarrow>
            (case find (\<lambda>s. svcName s = trim (crServiceName body) \<and> svcIsActive s) (services prov) of
               None \<Rightarrow> (Inl (Http 400 ''Service not found or inactive''), bookings)
             | Some svc \<Rightarrow>
                 (let endT = toTimeString5 z
                        (case parseClock z (crStartTime body) of
                           None \<Rightarrow> None
                         | Some t \<Rightarrow> timeClip (t + svcDuration svc * 60000))
                  in case isAvailableAt z prov (crAppointmentDate body) (crStartTime body) of
                       Inl e \<Rightarrow> (Inl (Caught e), bookings)
                     | Inr False \<Rightarrow>
                         (Inl (Http 400 ''Provider is not available at the requested time''), bookings)
                     | Inr True \<Rightarrow>
                         (case crAppointmentDate body of
                            None \<Rightarrow> (Inl (Caught castError), bookings)
                          | Some d \<Rightarrow>
                              (case existingBooking bookings (crProviderId body) d (crStartTime body) None of
                                 Some _ \<Rightarrow> (Inl (Http 400 ''Time slot is already booked''), bookings)
                               | None \<Rightarrow>
                                   (let b = \<lparr> bookingId = newId,
                                              customer = userId (reqUser req),
                                              provider = crProviderId body,
                                              service = \<lparr> serviceName = svcName svc,
                                                          serviceDescription = svcDescription svc,
                                                          serviceDuration = svcDuration svc,
                                                          servicePrice = svcPrice svc \<rparr>,
                                              appointmentDate = d,
                                              startTime = crStartTime body,
                                              endTime = endT,
                                              status = Pending,
                                              bookingNotes = crNotes body,
                                              providerNotes = None,
                                              payment = \<lparr> stripePaymentIntentId = None,
                                                          amount = svcPrice svc,
                                                          currency = ''usd'',
                                                          paymentStatus = PaymentPending,
                                                          paidAt = None \<rparr>,
                                              cancellation = None,
                                              rescheduleHistory = [] \<rparr>
                                    in case save now b bookings of
                                         Inl e \<Rightarrow> (Inl (Caught e), bookings)
                                       | Inr bookings' \<Rightarrow> (Inr b, bookings')))))))"


subsection \<open>\<open>PUT /api/bookings/:id/status\<close>\<close>

text \<open>
  Behind \<open>auth\<close> and \<open>requireProvider\<close>: \<open>reqProv\<close> is \<open>req.provider._id\<close>.  The body's
  status is one of the five values the validator lists (not \<open>pending\<close>).  \<open>mailOk\<close>
  tells whether \<open>sendBookingConfirmation\<close> succeeds; it throws otherwise, after the save.
\<close>

definition updateStatus ::
  "int \<Rightarrow> booking list \<Rightarrow> nat \<Rightarrow> nat \<Rightarrow> booking_status \<Rightarrow> string option \<Rightarrow> bool
     \<Rightarrow> route_result" where
  "updateStatus now bookings reqProv bid newStatus newNotes mailOk =
     (if newStatus = Pending \<or> \<not> optionalMaxLength 500 newNotes
      then (Inl (Http 400 ''validation errors''), bookings)
      else
        case findById bid bookings of
          None \<Rightarrow> (Inl (Http 404 ''Booking not found''), bookings)
        | Some booking \<Rightarrow>
            if provider booking \<noteq> reqProv then (Inl (Http 403 ''Access denied''), bookings)
            else
              (let oldStatus = status booking;
                   b1 = booking\<lparr>status := newStatus\<rparr>;
                   b2 = (case newNotes of
                           None \<Rightarrow> b1
                         | Some n \<Rightarrow> if n = [] then b1 else b1\<lparr>providerNotes := Some n\<rparr>)
               in case save now b2 bookings of
                    Inl e \<Rightarrow> (Inl (Caught e), bookings)
                  | Inr bookings' \<Rightarrow>
                      if newStatus = Confirmed \<and> oldStatus = Pending \<and> \<not> mailOk
                      then (Inl (Caught (Error ''Failed to send email'')), bookings')
                      else (Inr b2, bookings')))"

subsection \<open>\<open>PUT /api/bookings/:id/cancel\<close>\<close>

definition isCustomer :: "request_auth \<Rightarrow> booking \<Rightarrow> bool" where
  "isCustomer req b = (customer b = userId (reqUser req))"

definition isProvider :: "request_auth \<Rightarrow> booking \<Rightarrow> bool" where
  "isProvider req b =
     (role (reqUser req) = provider_role
      \<and> (case reqProvider req of None \<Rightarrow> False | Some p \<Rightarrow> provider b = p))"

definition cancelBooking ::
  "tza \<Rightarrow> int \<Rightarrow> booking list \<Rightarrow> request_auth \<Rightarrow> nat \<Rightarrow> string option \<Rightarrow> route_result" where
  "cancelBooking z now bookings req bid reason =
     (case findById bid bookings of
        None \<Rightarrow> (Inl (Http 404 ''Booking not found''), bookings)
      | Some booking \<Rightarrow>
          if \<not> isCustomer req booking \<and> \<not> isProvider req booking
          then (Inl (Http 403 ''Access denied''), bookings)
          else if \<not> canBeCancelled z booking now
          then (Inl (Http 400 ''Booking cannot be cancelled at this time''), bookings)
          else
            (let b1 = booking\<lparr>status := Cancelled\<rparr>;
                 b2 = b1\<lparr>cancellation := Some
                        \<lparr> cancelledBy = (if isCustomer req booking then ByCustomer else ByProvider),
                          cancelledAt = now,
                          cancelReason = reason,
                          refundAmount = calculateRefund z b1 now,
                          refundStatus = RefundPending \<rparr>\<rparr>
             in case save now b2 bookings of
                  Inl e \<Rightarrow> (Inl (Caught e), bookings)
                | Inr bookings' \<Rightarrow> (Inr b2, bookings')))"

subsection \<open>\<open>PUT /api/bookings/:id/reschedule\<close>\<close>

definition rescheduleBooking ::
  "tza \<Rightarrow> int \<Rightarrow> provider_doc list \<Rightarrow> booking list \<Rightarrow> request_auth \<Rightarrow> nat
     \<Rightarrow> jsdate \<Rightarrow> string \<Rightarrow> string option \<Rightarrow> route_result" where
  "rescheduleBooking z now providers bookings req bid newD newStart reason =
     (if \<not> (matchesTimePattern newStart \<and> optionalMaxLength 200 reason)
      then (Inl (Http 400 ''validation errors''), bookings)
      else
        case findById bid bookings of
          None \<Rightarrow> (Inl (Http 404 ''Booking not found''), bookings)
        | Some booking \<Rightarrow>
            if \<not> isCustomer req booking \<and> \<not> isProvider req booking
            then (Inl (Http 403 ''Access denied''), bookings)
            else if \<not> canBeRescheduled z booking now
            then (Inl (Http 400 ''Booking cannot be rescheduled at this time''), bookings)
            else
              (case find (\<lambda>p. providerId p = provider booking) providers of
                 None \<Rightarrow> (Inl (Caught TypeError), bookings)
               | Some prov \<Rightarrow>
                   (case isAvailableAt z prov newD newStart of
                      Inl e \<Rightarrow> (Inl (Caught e), bookings)
                    | Inr False \<Rightarrow>
                        (Inl (Http 400 ''Provider is not available at the requested time''), bookings)
                    | Inr True \<Rightarrow>
                        (case newD of
                           None \<Rightarrow> (Inl (Caught castError), bookings)
                         | Some d \<Rightarrow>
                             (case existingBooking bookings (provider booking) d newStart
                                     (Some (bookingId booking)) of
                                Some _ \<Rightarrow> (Inl (Http 400 ''Time slot is already booked''), bookings)
                              | None \<Rightarrow>
                                  (let b1 = booking\<lparr>rescheduleHistory := rescheduleHistory booking @
                                              [\<lparr> originalDate = appointmentDate booking,
                                                 originalStartTime = startTime booking,
                                                 originalEndTime = endTime booking,
                                                 newDate = d,
                                                 newStartTime = newStart,
                                                 newEndTime = endTime booking,
                                                 rescheduleReason = reason,
                                                 rescheduledAt = now,
                                                 rescheduledBy =
                                                   (if isCustomer req booking then RescheduledByCustomer
                                                    else RescheduledByProvider) \<rparr>]\<rparr>;
                                       b2 = b1\<lparr>appointmentDate := d, startTime := newStart\<rparr>
                                   in case save now b2 bookings of
                                        Inl e \<Rightarrow> (Inl (Caught e), bookings)
                                      | Inr bookings' \<Rightarrow> (Inr b2, bookings')))))))"

subsection \<open>\<open>POST /api/payments/confirm-payment\<close> and the webhook's \<open>handlePaymentSucceeded\<close>\<close>

text \<open>
  \<open>intent\<close> is what \<open>stripe.paymentIntents.retrieve(paymentIntentId)\<close> gives: an exception,
  or the status string of the payment intent.
\<close>

definition findByPaymentIntent :: "string \<Rightarrow> booking list \<Rightarrow> booking option" where
  "findByPaymentIntent pid bookings =
     find (\<lambda>b. stripePaymentIntentId (payment b) = Some pid) bookings"

definition confirmPayment ::
  "int \<Rightarrow> booking list \<Rightarrow> request_auth \<Rightarrow> string \<Rightarrow> js_error + string \<Rightarrow> bool
     \<Rightarrow> route_result" where
  "confirmPayment now bookings req paymentIntentId intent mailOk =
     (if paymentIntentId = [] then (Inl (Http 400 ''validation errors''), bookings)
      else
        case intent of
          Inl e \<Rightarrow> (Inl (Caught e), bookings)
        | Inr intentStatus \<Rightarrow>
            if intentStatus \<noteq> ''succeeded'' then (Inl (Http 400 ''Payment not completed''), bookings)
            else
              (case findByPaymentIntent paymentIntentId bookings of
                 None \<Rightarrow> (Inl (Http 404 ''Booking not found''), bookings)
               | Some booking \<Rightarrow>
                   if customer booking \<noteq> userId (reqUser req)
                   then (Inl (Http 403 ''Access denied''), bookings)
                   else
                     (let b1 = booking\<lparr>payment := (payment booking)
                                  \<lparr>paymentStatus := PaymentSucceeded, paidAt := Some now\<rparr>\<rparr>;
                          b2 = b1\<lparr>status := Confirmed\<rparr>
                      in case save now b2 bookings of
                           Inl e \<Rightarrow> (Inl (Caught e), bookings)
                         | Inr bookings' \<Rightarrow>
                             if \<not> mailOk
                             then (Inl (Caught (Error ''Failed to send email'')), bookings')
                             else (Inr b2, bookings'))))"

text \<open>
  \<open>handlePaymentSucceeded\<close> catches and logs its own exceptions and returns nothing: the
  result is the logged exception, if any, and the collection afterwards.
\<close>

definition handlePaymentSucceeded ::
  "int \<Rightarrow> booking list \<Rightarrow> string \<Rightarrow> js_error option \<times> booking list" where
  "handlePaymentSucceeded now bookings paymentIntentId =
     (case findByPaymentIntent paymentIntentId bookings of
        None \<Rightarrow> (None, bookings)
      | Some booking \<Rightarrow>
          if paymentStatus (payment booking) = PaymentPending then
            (let b1 = booking\<lparr>payment := (payment booking)
                         \<lparr>paymentStatus := PaymentSucceeded, paidAt := Some now\<rparr>\<rparr>;
                 b2 = b1\<lparr>status := Confirmed\<rparr>
             in case save now b2 bookings of
                  Inl e \<Rightarrow> (Some e, bookings)
                | Inr bookings' \<Rightarrow> (None, bookings'))
          else (None, bookings))"


section \<open>Example data\<close>

text \<open>
  A provider working Mondays 09:00-17:00 with one 30-minute service, Monday 2024-06-10
  (midnight UTC is the time value 1717977600000), bookings of that provider on that day
  at 10:00, and their customer.  \<open>utc\<close> is the time zone with offset 0.
  \<open>invalidDayProvider\<close> has a working day stored under the name \<open>Invalid Date\<close>.
\<close>

definition utc :: tza where
  "utc = (\<lambda>t isUTC. 0)"

definition mondayDate :: int where
  "mondayDate = 1717977600000"

definition exampleProvider :: provider_doc where
  "exampleProvider =
     \<lparr> providerId = 3, providerUser = 30,
       services = [\<lparr> svcName = ''Haircut'', svcDescription = None, svcDuration = 30,
                     svcPrice = 80, svcIsActive = True \<rparr>],
       workingDays = [\<lparr> day = ''monday'', wdStartTime = ''09:00'', wdEndTime = ''17:00'',
                        isAvailable = True \<rparr>],
       blockedDates = [] \<rparr>"

definition closedProvider :: provider_doc where
  "closedProvider = exampleProvider\<lparr> workingDays := [] \<rparr>"

definition invalidDayProvider :: provider_doc where
  "invalidDayProvider =
     exampleProvider\<lparr> workingDays := [\<lparr> day = ''Invalid Date'', wdStartTime = ''09:00'',
                                         wdEndTime = ''17:00'', isAvailable = True \<rparr>] \<rparr>"

definition exampleBooking :: booking where
  "exampleBooking =
     \<lparr> bookingId = 1, customer = 7, provider = 3,
       service = \<lparr> serviceName = ''Haircut'', serviceDescription = None,
                   serviceDuration = 30, servicePrice = 80 \<rparr>,
       appointmentDate = 1717977600000, startTime = ''10:00'', endTime = ''10:30'',
       status = Confirmed, bookingNotes = None, providerNotes = None,
       payment = \<lparr> stripePaymentIntentId = Some ''pi_1'', amount = 80, currency = ''usd'',
                   paymentStatus = PaymentSucceeded, paidAt = Some 1717000000000 \<rparr>,
       cancellation = None, rescheduleHistory = [] \<rparr>"

definition cancelledBooking :: booking where
  "cancelledBooking = exampleBooking\<lparr>status := Cancelled\<rparr>"

definition pendingBooking :: booking where
  "pendingBooking =
     \<lparr> bookingId = 2, customer = 7, provider = 3,
       service = \<lparr> serviceName = ''Haircut'', serviceDescription = None,
                   serviceDuration = 30, servicePrice = 80 \<rparr>,
       appointmentDate = 1717977600000, startTime = ''10:00'', endTime = ''10:30'',
       status = Pending, bookingNotes = None, providerNotes = None,
       payment = \<lparr> stripePaymentIntentId = None, amount = 80, currency = ''usd'',
                   paymentStatus = PaymentPending, paidAt = None \<rparr>,
       cancellation = None, rescheduleHistory = [] \<rparr>"

definition unpaidBooking :: booking where
  "unpaidBooking =
     pendingBooking\<lparr>payment := (payment pendingBooking)\<lparr>stripePaymentIntentId := Some ''pi_2''\<rparr>\<rparr>"

definition exampleCustomer :: request_auth where
  "exampleCustomer = \<lparr> reqUser = \<lparr> userId = 7, role = customer_role \<rparr>, reqProvider = None \<rparr>"

definition exampleBody :: create_body where
  "exampleBody = \<lparr> crProviderId = 3, crServiceName = ''Haircut'',
                    crAppointmentDate = Some 1717977600000, crStartTime = ''10:00'',
                    crNotes = None \<rparr>"

section \<open>Properties\<close>

declare slotLoop.simps [simp del]

lemmas fixture_defs = utc_def mondayDate_def exampleProvider_def closedProvider_def
  invalidDayProvider_def
  exampleBooking_def exampleCustomer_def pendingBooking_def cancelledBooking_def
  unpaidBooking_def exampleBody_def

lemmas time_defs = timeClip_def utcTime_def localTime_def day_of_def msPerDay_def
  msPerHour_def msPerMinute_def

lemmas parse_defs = split_colon_def parseInt_def digitValue_def isWhiteSpace_def
  isDigit_def digitOf_def

subsection \<open>The availability methods\<close>

lemma toLocaleDateString_lowercase:
  "toLocaleDateString z (Some t) ''lowercase'' = Inl RangeError"
  by (simp add: toLocaleDateString_def)

lemma isAvailableAt_valid_date: "isAvailableAt z p (Some t) time = Inl RangeError"
  by (simp add: isAvailableAt_def toLocaleDateString_lowercase)

lemma getAvailableSlots_valid_date: "getAvailableSlots z p (Some t) = Inl RangeError"
  by (simp add: getAvailableSlots_def toLocaleDateString_lowercase)

text \<open>
  Claim C1, as stated: every call of \<open>isAvailableAt\<close> and \<open>getAvailableSlots\<close> throws and
  returns no value, so that no request passes the availability check.  It fails for the
  Invalid Date (which \<open>new Date\<close> gives for a body string such as a week date, accepted by
  \<open>isISO8601()\<close>): \<open>toLocaleDateString\<close> then returns the string \<open>Invalid Date\<close> without
  reading its options, and both methods return a value, \<open>false\<close> and the empty list for
  the Monday provider.  For a provider with a working day stored under the name
  \<open>Invalid Date\<close>, \<open>isAvailableAt\<close> returns \<open>true\<close>.
\<close>

theorem availability_methods_return_for_invalid_date:
  "isAvailableAt utc exampleProvider None ''10:00'' = Inr False \<and>
   getAvailableSlots utc exampleProvider None = Inr [] \<and>
   isAvailableAt utc invalidDayProvider None ''10:00'' = Inr True"
  by (simp add: isAvailableAt_def getAvailableSlots_def toLocaleDateString_def isBlocked_def
      parseClock_def date_le_def date_lt_def isDigit_def digitOf_def fixture_defs time_defs)

text \<open>
  Claim C1, amended.  For every provider, every valid date (one that is not the Invalid
  Date) and every time string, \<open>isAvailableAt\<close> and \<open>getAvailableSlots\<close> throw a
  RangeError and return no value: both start by asking \<open>toLocaleDateString\<close> for the
  weekday in the style \<open>lowercase\<close>, which is not one of \<open>narrow\<close>, \<open>short\<close>, \<open>long\<close>.
  Consequently no create or reschedule request with a valid date passes the availability
  check: the handler answers with one of the errors that precede the check, or with the
  500 of the \<open>catch\<close> block for the RangeError, and leaves the collection as it is.
\<close>

theorem availability_check_throws_for_valid_dates:
  "isAvailableAt z p (Some t) time = Inl RangeError \<and>
   getAvailableSlots z p (Some t) = Inl RangeError \<and>
   createBooking z now providers bookings newId req (body\<lparr>crAppointmentDate := Some t\<rparr>)
     \<in> {(Inl (Http 400 ''validation errors''), bookings),
        (Inl (Http 404 ''Provider not found''), bookings),
        (Inl (Http 400 ''Service not found or inactive''), bookings),
        (Inl (Caught RangeError), bookings)} \<and>
   rescheduleBooking z now providers bookings req bid (Some t) newStart reason
     \<in> {(Inl (Http 400 ''validation errors''), bookings),
        (Inl (Http 404 ''Booking not found''), bookings),
        (Inl (Http 403 ''Access denied''), bookings),
        (Inl (Http 400 ''Booking cannot be rescheduled at this time''), bookings),
        (Inl (Caught TypeError), bookings),
        (Inl (Caught RangeError), bookings)}"
proof -
  have c: "createBooking z now providers bookings newId req (body\<lparr>crAppointmentDate := Some t\<rparr>)
     \<in> {(Inl (Http 400 ''validation errors''), bookings),
        (Inl (Http 404 ''Provider not found''), bookings),
        (Inl (Http 400 ''Service not found or inactive''), bookings),
        (Inl (Caught RangeError), bookings)}"
    by (simp add: createBooking_def Let_def isAvailableAt_valid_date split: option.splits)
  have r: "rescheduleBooking z now providers bookings req bid (Some t) newStart reason
     \<in> {(Inl (Http 400 ''validation errors''), bookings),
        (Inl (Http 404 ''Booking not found''), bookings),
        (Inl (Http 403 ''Access denied''), bookings),
        (Inl (Http 400 ''Booking cannot be rescheduled at this time''), bookings),
        (Inl (Caught TypeError), bookings),
        (Inl (Caught RangeError), bookings)}"
    by (simp add: rescheduleBooking_def Let_def isAvailableAt_valid_date split: option.splits)
  from c r show ?thesis
    by (simp add: isAvailableAt_valid_date getAvailableSlots_valid_date)
qed

text \<open>
  The Monday provider on Monday 2024-06-10: both methods throw, and a valid create
  request and a valid reschedule request of the customer end in the \<open>catch\<close> block.
\<close>

theorem availability_check_throws_for_valid_dates_witness:
  "isAvailableAt utc exampleProvider (Some mondayDate) ''10:00'' = Inl RangeError \<and>
   getAvailableSlots utc exampleProvider (Some mondayDate) = Inl RangeError \<and>
   createBooking utc 1717500000000 [exampleProvider] [] 1 exampleCustomer exampleBody
     = (Inl (Caught RangeError), []) \<and>
   rescheduleBooking utc 1717500000000 [exampleProvider] [exampleBooking] exampleCustomer 1
       (Some 1718582400000) ''11:00'' None
     = (Inl (Caught RangeError), [exampleBooking])"
proof -
  have b: "exampleBody\<lparr>crAppointmentDate := Some mondayDate\<rparr> = exampleBody"
    by (simp add: exampleBody_def mondayDate_def)
  have c: "createBooking utc 1717500000000 [exampleProvider] [] 1 exampleCustomer exampleBody
     = (Inl (Caught RangeError), [])"
    by (simp add: createBooking_def isAvailableAt_valid_date trim_def matchesTimePattern_def
        optionalMaxLength_def isWhiteSpace_def isDigit_def digitOf_def fixture_defs)
  have d: "appointmentDateTime utc exampleBooking = Some 1718013600000"
    by (simp add: appointmentDateTime_def setHours_def fixture_defs time_defs parse_defs)
  have r: "rescheduleBooking utc 1717500000000 [exampleProvider] [exampleBooking] exampleCustomer 1
       (Some 1718582400000) ''11:00'' None = (Inl (Caught RangeError), [exampleBooking])"
    by (simp add: rescheduleBooking_def isAvailableAt_valid_date matchesTimePattern_def
        optionalMaxLength_def isDigit_def digitOf_def findById_def isCustomer_def
        canBeRescheduled_def hoursUntilAppointment_def d)
      (simp add: fixture_defs)
  show ?thesis
    using b c r
      availability_check_throws_for_valid_dates [of utc exampleProvider mondayDate
        "''10:00''" 1717500000000 "[exampleProvider]" "[]" 1 exampleCustomer exampleBody]
      availability_check_throws_for_valid_dates [of utc exampleProvider 1718582400000
        "''11:00''" 1717500000000 "[exampleProvider]" "[exampleBooking]" 1 exampleCustomer
        exampleBody 1 "''11:00''" None]
    by simp
qed

subsection \<open>Payment confirmation\<close>

text \<open>
  Claim C2.  The claim: payment confirmation changes a booking only when its
  \<open>payment.status\<close> is pending, and otherwise fails and leaves the booking unchanged.
  The webhook's \<open>handlePaymentSucceeded\<close> has this guard; the handler of
  \<open>POST /confirm-payment\<close> has none.  For a booking that is already paid and has since
  been cancelled, a further confirm-payment request of its customer succeeds, sets the
  status back to confirmed and overwrites \<open>paidAt\<close>, while the webhook handler leaves the
  same booking as it is.
\<close>

theorem confirmPayment_ignores_payment_status:
  "paymentStatus (payment cancelledBooking) = PaymentSucceeded \<and>
   status cancelledBooking = Cancelled \<and>
   confirmPayment 1717500000000 [cancelledBooking] exampleCustomer ''pi_1'' (Inr ''succeeded'') True
     = (Inr (exampleBooking\<lparr>payment := (payment exampleBooking)\<lparr>paidAt := Some 1717500000000\<rparr>\<rparr>),
        [exampleBooking\<lparr>payment := (payment exampleBooking)\<lparr>paidAt := Some 1717500000000\<rparr>\<rparr>]) \<and>
   handlePaymentSucceeded 1717500000000 [cancelledBooking] ''pi_1'' = (None, [cancelledBooking])"
  by (simp add: confirmPayment_def handlePaymentSucceeded_def findByPaymentIntent_def save_def
      validateBooking_def preSave_def fixture_defs Let_def)

subsection \<open>Cancellation policy\<close>

lemma exampleBooking_dateTime:
  "appointmentDateTime utc exampleBooking = Some 1718013600000"
  by (simp add: appointmentDateTime_def setHours_def fixture_defs time_defs parse_defs)

lemma pendingBooking_dateTime:
  "appointmentDateTime utc pendingBooking = Some 1718013600000"
  by (simp add: appointmentDateTime_def setHours_def fixture_defs time_defs parse_defs)

text \<open>
  Claim C3.  For every booking whose appointment date-time is the valid time \<open>t\<close> and every
  instant \<open>now\<close>, \<open>calculateRefund\<close> is the full \<open>payment.amount\<close> when \<open>t - now\<close> is more
  than 24 hours, half of it when \<open>t - now\<close> is more than 2 hours and at most 24 hours, and
  0 when \<open>t - now\<close> is at most 2 hours.
\<close>

theorem calculateRefund_tiers:
  "appointmentDateTime z b = Some t \<Longrightarrow>
     (t - now > 24 * msPerHour \<longrightarrow> calculateRefund z b now = amount (payment b)) \<and>
     (2 * msPerHour < t - now \<and> t - now \<le> 24 * msPerHour \<longrightarrow>
        calculateRefund z b now = 0.5 * amount (payment b)) \<and>
     (t - now \<le> 2 * msPerHour \<longrightarrow> calculateRefund z b now = 0)"
  by (auto simp add: calculateRefund_def hoursUntilAppointment_def msPerHour_def field_simps)

text \<open>
  For a booking of amount 80: the refund is 80 at 25 hours out and one millisecond beyond
  24 hours, 40 at exactly 24 hours, at 10 hours and one millisecond beyond 2 hours, and 0
  at exactly 2 hours and at 1 hour.  It jumps at both boundaries.
\<close>

theorem calculateRefund_tiers_witness:
  "appointmentDateTime utc exampleBooking = Some 1718013600000 \<and>
   calculateRefund utc exampleBooking (1718013600000 - 25 * msPerHour) = 80 \<and>
   calculateRefund utc exampleBooking (1718013600000 - 24 * msPerHour - 1) = 80 \<and>
   calculateRefund utc exampleBooking (1718013600000 - 24 * msPerHour) = 40 \<and>
   calculateRefund utc exampleBooking (1718013600000 - 10 * msPerHour) = 40 \<and>
   calculateRefund utc exampleBooking (1718013600000 - 2 * msPerHour - 1) = 40 \<and>
   calculateRefund utc exampleBooking (1718013600000 - 2 * msPerHour) = 0 \<and>
   calculateRefund utc exampleBooking (1718013600000 - 1 * msPerHour) = 0"
proof -
  note dt = exampleBooking_dateTime
  have amt: "amount (payment exampleBooking) = 80"
    by (simp add: exampleBooking_def)
  show ?thesis
    using dt amt
      calculateRefund_tiers [OF dt, of "1718013600000 - 25 * msPerHour"]
      calculateRefund_tiers [OF dt, of "1718013600000 - 24 * msPerHour - 1"]
      calculateRefund_tiers [OF dt, of "1718013600000 - 24 * msPerHour"]
      calculateRefund_tiers [OF dt, of "1718013600000 - 10 * msPerHour"]
      calculateRefund_tiers [OF dt, of "1718013600000 - 2 * msPerHour - 1"]
      calculateRefund_tiers [OF dt, of "1718013600000 - 2 * msPerHour"]
      calculateRefund_tiers [OF dt, of "1718013600000 - 1 * msPerHour"]
    by (simp add: msPerHour_def)
qed

text \<open>
  Claim C4.  For every booking and instant \<open>now\<close>, \<open>canBeCancelled\<close> holds iff the status
  is confirmed and the appointment date-time is a valid time more than 2 hours after
  \<open>now\<close>; \<open>canBeRescheduled\<close> holds iff the status is confirmed and it is more than 4
  hours after \<open>now\<close>.
\<close>

theorem cancel_reschedule_windows:
  "canBeCancelled z b now =
     (status b = Confirmed \<and> (\<exists>t. appointmentDateTime z b = Some t \<and> t - now > 2 * msPerHour))
   \<and> canBeRescheduled z b now =
     (status b = Confirmed \<and> (\<exists>t. appointmentDateTime z b = Some t \<and> t - now > 4 * msPerHour))"
  by (auto simp add: canBeCancelled_def canBeRescheduled_def hoursUntilAppointment_def
      msPerHour_def field_simps split: option.splits)

text \<open>
  A pending booking 9 hours out cannot be cancelled; a confirmed booking exactly 3 hours
  out can be cancelled and cannot be rescheduled; the windows are open at exactly 2 and
  4 hours.
\<close>

theorem cancel_reschedule_windows_witness:
  "\<not> canBeCancelled utc pendingBooking (1718013600000 - 9 * msPerHour) \<and>
   canBeCancelled utc exampleBooking (1718013600000 - 3 * msPerHour) \<and>
   \<not> canBeRescheduled utc exampleBooking (1718013600000 - 3 * msPerHour) \<and>
   canBeCancelled utc exampleBooking (1718013600000 - 2 * msPerHour - 1) \<and>
   \<not> canBeCancelled utc exampleBooking (1718013600000 - 2 * msPerHour) \<and>
   canBeRescheduled utc exampleBooking (1718013600000 - 4 * msPerHour - 1) \<and>
   \<not> canBeRescheduled utc exampleBooking (1718013600000 - 4 * msPerHour)"
proof -
  have st: "status exampleBooking = Confirmed" "status pendingBooking = Pending"
    by (simp_all add: exampleBooking_def pendingBooking_def)
  show ?thesis
    using st exampleBooking_dateTime pendingBooking_dateTime
      cancel_reschedule_windows [of utc pendingBooking "1718013600000 - 9 * msPerHour"]
      cancel_reschedule_windows [of utc exampleBooking "1718013600000 - 3 * msPerHour"]
      cancel_reschedule_windows [of utc exampleBooking "1718013600000 - 2 * msPerHour - 1"]
      cancel_reschedule_windows [of utc exampleBooking "1718013600000 - 2 * msPerHour"]
      cancel_reschedule_windows [of utc exampleBooking "1718013600000 - 4 * msPerHour - 1"]
      cancel_reschedule_windows [of utc exampleBooking "1718013600000 - 4 * msPerHour"]
    by (simp add: msPerHour_def)
qed


subsection \<open>The conflict query\<close>

lemma existingBooking_iff:
  "(existingBooking bookings pid d st excluded \<noteq> None) =
     (\<exists>b \<in> set bookings. provider b = pid \<and> appointmentDate b = d \<and> startTime b = st
        \<and> (status b = Pending \<or> status b = Confirmed)
        \<and> (\<forall>i. excluded = Some i \<longrightarrow> bookingId b \<noteq> i))"
  by (auto simp add: existingBooking_def find_None_iff split: option.splits)

text \<open>
  Claim C5.  The claim: the conflict query finds a booking iff one of the same provider,
  date and start time, other than the excluded one, is pending or confirmed (this is
  \<open>existingBooking_iff\<close>); hence a create at the tuple of a confirmed booking fails with a
  conflict, and succeeds once that booking is cancelled.  The handler never gets to the
  query: with the booking confirmed the request ends in the \<open>catch\<close> block with the
  RangeError of \<open>isAvailableAt\<close>, not with the conflict response, and with the booking
  cancelled (where the query finds nothing) it ends there too and stores nothing.
\<close>

theorem createBooking_never_reaches_conflict_check:
  "existingBooking [exampleBooking] 3 1717977600000 ''10:00'' None = Some exampleBooking \<and>
   createBooking utc 1717500000000 [exampleProvider] [exampleBooking] 2 exampleCustomer exampleBody
     = (Inl (Caught RangeError), [exampleBooking]) \<and>
   existingBooking [cancelledBooking] 3 1717977600000 ''10:00'' None = None \<and>
   createBooking utc 1717500000000 [exampleProvider] [cancelledBooking] 2 exampleCustomer exampleBody
     = (Inl (Caught RangeError), [cancelledBooking])"
  by (simp add: createBooking_def existingBooking_def isAvailableAt_valid_date trim_def
      matchesTimePattern_def optionalMaxLength_def isWhiteSpace_def isDigit_def digitOf_def
      fixture_defs)

subsection \<open>Slot generation\<close>

text \<open>
  The loop itself, started on an interval of \<open>n\<close> whole slots, returns exactly the \<open>n\<close>
  contiguous slots of 30 minutes.
\<close>

lemma slotLoop_step:
  "slotLoop z s (s + int (Suc n) * 1800000) =
     \<lparr> slotStartTime = toTimeString5 z (timeClip s),
       slotEndTime = toTimeString5 z (timeClip (s + 1800000)),
       slotIsAvailable = True \<rparr> # slotLoop z (s + 1800000) (s + 1800000 + int n * 1800000)"
  by (subst slotLoop.simps) (simp add: slotDuration_def Let_def algebra_simps)

lemma slotLoop_tiles:
  "slotLoop z s (s + int n * 1800000) =
     map (\<lambda>k. \<lparr> slotStartTime = toTimeString5 z (timeClip (s + int k * 1800000)),
                 slotEndTime = toTimeString5 z (timeClip (s + int (Suc k) * 1800000)),
                 slotIsAvailable = True \<rparr>) [0..<n]"
proof (induction n arbitrary: s)
  case 0
  show ?case by (subst slotLoop.simps) simp
next
  case (Suc n)
  have "slotLoop z s (s + int (Suc n) * 1800000) =
     \<lparr> slotStartTime = toTimeString5 z (timeClip s),
       slotEndTime = toTimeString5 z (timeClip (s + 1800000)),
       slotIsAvailable = True \<rparr> # slotLoop z (s + 1800000) (s + 1800000 + int n * 1800000)"
    by (rule slotLoop_step)
  also have "slotLoop z (s + 1800000) (s + 1800000 + int n * 1800000) =
     map (\<lambda>k. \<lparr> slotStartTime = toTimeString5 z (timeClip (s + 1800000 + int k * 1800000)),
                 slotEndTime = toTimeString5 z (timeClip (s + 1800000 + int (Suc k) * 1800000)),
                 slotIsAvailable = True \<rparr>) [0..<n]"
    by (rule Suc.IH)
  finally show ?case
    by (simp add: upt_conv_Cons map_Suc_upt [symmetric] algebra_simps del: upt_Suc)
qed

lemma slotLoop_length: "length (slotLoop z s (s + int n * 1800000)) = n"
  by (simp add: slotLoop_tiles)

lemma slotLoop_nine_to_five:
  "length (slotLoop utc (10957 * msPerDay + 9 * msPerHour) (10957 * msPerDay + 17 * msPerHour)) = 16 \<and>
   hd (slotLoop utc (10957 * msPerDay + 9 * msPerHour) (10957 * msPerDay + 17 * msPerHour))
     = \<lparr> slotStartTime = ''09:00'', slotEndTime = ''09:30'', slotIsAvailable = True \<rparr> \<and>
   last (slotLoop utc (10957 * msPerDay + 9 * msPerHour) (10957 * msPerDay + 17 * msPerHour))
     = \<lparr> slotStartTime = ''16:30'', slotEndTime = ''17:00'', slotIsAvailable = True \<rparr>"
proof -
  have e: "10957 * msPerDay + 17 * msPerHour = (10957 * msPerDay + 9 * msPerHour) + int 16 * 1800000"
    by (simp add: msPerDay_def msPerHour_def)
  have u: "[0..<16] = [0, 1, 2, 3, 4, 5, 6, 7, 8, 9, 10, 11, 12, 13, 14, 15::nat]"
    by (simp add: upt_rec)
  show ?thesis
    unfolding e slotLoop_tiles u
    by (simp add: toTimeString5_def twoDigits_def utc_def time_defs)
qed

text \<open>
  Claim C6.  The claim: a working day whose interval is a whole number of 30-minute slots
  yields exactly those slots, in order and contiguous; Monday 09:00-17:00 yields 16 slots
  from 09:00-09:30 to 16:30-17:00.  The loop does so (\<open>slotLoop_tiles\<close>,
  \<open>slotLoop_nine_to_five\<close>), but \<open>getAvailableSlots\<close> does not reach it: for the Monday
  template and Monday 2024-06-10 it throws the RangeError of its first statement.
\<close>

theorem getAvailableSlots_throws_on_monday_template:
  "getAvailableSlots utc exampleProvider (Some mondayDate) = Inl RangeError"
  by (simp add: getAvailableSlots_valid_date)

text \<open>
  Claim C7.  The claim: \<open>getAvailableSlots\<close> returns the empty list when the day of the
  week has no working-day entry, or the entry is not available, or the date is blocked.
  For a provider with no working-day entry and Monday 2024-06-10 the method throws the
  RangeError of its first statement and returns no list.
\<close>

theorem getAvailableSlots_throws_without_template:
  "find (\<lambda>wd. day wd = ''monday'') (workingDays closedProvider) = None \<and>
   getAvailableSlots utc closedProvider (Some mondayDate) = Inl RangeError"
  by (simp add: getAvailableSlots_valid_date closedProvider_def)

lemma date_lt_irrefl: "\<not> date_lt d d"
  by (simp add: date_lt_def split: option.splits)

text \<open>
  Claim C8.  The claim: \<open>isAvailableAt\<close> returns false at a time equal to the end time of
  the day's entry.  The last statement of the method compares with \<open><\<close> against the end
  time (\<open>date_lt_irrefl\<close>), but the method does not reach it: for the Monday template,
  Monday 2024-06-10 and 17:00 it throws the RangeError of its first statement and returns
  no boolean.
\<close>

theorem isAvailableAt_throws_at_endTime:
  "map wdEndTime (workingDays exampleProvider) = [''17:00''] \<and>
   isAvailableAt utc exampleProvider (Some mondayDate) ''17:00'' = Inl RangeError"
  by (simp add: isAvailableAt_valid_date exampleProvider_def)


subsection \<open>The past-date check of \<open>save\<close>\<close>

lemma validateBooking_status [simp]:
  "validateBooking (b\<lparr>status := st\<rparr>) = validateBooking b"
  by (simp add: validateBooking_def)

lemma validateBooking_providerNotes [simp]:
  "validateBooking (b\<lparr>providerNotes := n\<rparr>) = validateBooking b"
  by (simp add: validateBooking_def)

lemma validateBooking_payment [simp]:
  "validateBooking (b\<lparr>payment := pm\<rparr>) = validateBooking b"
  by (simp add: validateBooking_def)

lemma validateBooking_cancellation [simp]:
  "validateBooking (b\<lparr>cancellation := c\<rparr>) = validateBooking b"
  by (simp add: validateBooking_def)

lemma save_stores_valid_documents:
  "save now b bookings = Inr bookings' \<Longrightarrow> validateBooking b = None"
  by (simp add: save_def split: option.splits)

text \<open>
  Claim C9, as stated: saving a new booking whose appointment date is not strictly later
  than the current time fails.  It does not at the boundary: a booking whose appointment
  date equals the current instant passes the hook and is stored.
\<close>

theorem save_accepts_appointment_at_current_instant:
  "\<not> appointmentDate pendingBooking > 1717977600000 \<and>
   save 1717977600000 pendingBooking [] = Inr [pendingBooking]"
  by (simp add: save_def validateBooking_def preSave_def pendingBooking_def)

text \<open>
  Claim C9, amended.  Saving a booking whose appointment date is strictly earlier than the
  current time fails with an error and stores nothing; the error is that of the hook,
  \<open>Appointment date cannot be in the past\<close>, when the document passes the schema
  validation that precedes the hook.
\<close>

theorem save_rejects_past_dates:
  "appointmentDate b < now \<Longrightarrow>
     (\<exists>e. save now b bookings = Inl e) \<and>
     (validateBooking b = None \<longrightarrow>
        save now b bookings = Inl (Error ''Appointment date cannot be in the past''))"
  by (simp add: save_def preSave_def split: option.splits)

theorem save_rejects_past_dates_witness:
  "appointmentDate pendingBooking < 1717977600001 \<and>
   validateBooking pendingBooking = None \<and>
   save 1717977600001 pendingBooking [] = Inl (Error ''Appointment date cannot be in the past'')"
proof -
  have p: "appointmentDate pendingBooking < 1717977600001"
    by (simp add: pendingBooking_def)
  have v: "validateBooking pendingBooking = None"
    by (simp add: validateBooking_def pendingBooking_def)
  show ?thesis
    using p v save_rejects_past_dates [OF p, of "[]"] by simp
qed

text \<open>
  Claim C10.  The hook runs at every save.  For a booking whose appointment date is
  earlier than the current time, each handler that gets as far as saving it ends in its
  \<open>catch\<close> block and leaves the collection unchanged: the status update of the owning
  provider (to any status the validator admits, such as completed or no-show), the
  cancellation by the customer or provider of a booking that can still be cancelled, and
  the payment confirmation by the customer; the webhook's payment handler logs the error
  and leaves the collection unchanged.  The error is \<open>Appointment date cannot be in the
  past\<close> for every booking that passes the schema validation, as every booking does that
  a save has stored (\<open>save_stores_valid_documents\<close>; the handlers change no validated
  field).  Whatever else such a request carries, none of these handlers changes the
  collection.
\<close>

theorem past_appointment_fails_every_save:
  assumes "appointmentDate b < now"
  shows "(findById bid bookings = Some b \<and> provider b = reqProv \<and> newStatus \<noteq> Pending
            \<and> optionalMaxLength 500 newNotes
          \<longrightarrow> (\<exists>e. updateStatus now bookings reqProv bid newStatus newNotes mailOk
                     = (Inl (Caught e), bookings))
              \<and> (validateBooking b = None
                   \<longrightarrow> updateStatus now bookings reqProv bid newStatus newNotes mailOk
                       = (Inl (Caught (Error ''Appointment date cannot be in the past'')), bookings)))
       \<and> (findById bid bookings = Some b \<and> (isCustomer req b \<or> isProvider req b)
            \<and> canBeCancelled z b now
          \<longrightarrow> (\<exists>e. cancelBooking z now bookings req bid reason = (Inl (Caught e), bookings))
              \<and> (validateBooking b = None
                   \<longrightarrow> cancelBooking z now bookings req bid reason
                       = (Inl (Caught (Error ''Appointment date cannot be in the past'')), bookings)))
       \<and> (findByPaymentIntent pid bookings = Some b \<and> pid \<noteq> [] \<and> customer b = userId (reqUser req)
          \<longrightarrow> (\<exists>e. confirmPayment now bookings req pid (Inr ''succeeded'') mailOk
                     = (Inl (Caught e), bookings))
              \<and> (validateBooking b = None
                   \<longrightarrow> confirmPayment now bookings req pid (Inr ''succeeded'') mailOk
                       = (Inl (Caught (Error ''Appointment date cannot be in the past'')), bookings)))
       \<and> (findByPaymentIntent pid bookings = Some b \<and> paymentStatus (payment b) = PaymentPending
          \<longrightarrow> (\<exists>e. handlePaymentSucceeded now bookings pid = (Some e, bookings))
              \<and> (validateBooking b = None
                   \<longrightarrow> handlePaymentSucceeded now bookings pid
                       = (Some (Error ''Appointment date cannot be in the past''), bookings)))
       \<and> (findById bid bookings = Some b
          \<longrightarrow> snd (updateStatus now bookings reqProv bid newStatus newNotes mailOk) = bookings
              \<and> snd (cancelBooking z now bookings req bid reason) = bookings)
       \<and> (findByPaymentIntent pid bookings = Some b
          \<longrightarrow> snd (confirmPayment now bookings req pid intent mailOk) = bookings
              \<and> snd (handlePaymentSucceeded now bookings pid) = bookings)"
proof -
  have s: "\<And>b'. appointmentDate b' = appointmentDate b \<Longrightarrow> validateBooking b' = validateBooking b \<Longrightarrow>
             save now b' bookings =
               Inl (case validateBooking b of
                      Some e \<Rightarrow> e
                    | None \<Rightarrow> Error ''Appointment date cannot be in the past'')"
    using assms by (simp add: save_def preSave_def split: option.splits)
  have 1: "findById bid bookings = Some b \<and> provider b = reqProv \<and> newStatus \<noteq> Pending
            \<and> optionalMaxLength 500 newNotes
          \<longrightarrow> updateStatus now bookings reqProv bid newStatus newNotes mailOk
                = (Inl (Caught (case validateBooking b of
                                  Some e \<Rightarrow> e
                                | None \<Rightarrow> Error ''Appointment date cannot be in the past'')), bookings)"
    by (auto simp add: updateStatus_def Let_def s split: option.splits)
  have 2: "findById bid bookings = Some b \<and> (isCustomer req b \<or> isProvider req b)
            \<and> canBeCancelled z b now
          \<longrightarrow> cancelBooking z now bookings req bid reason
                = (Inl (Caught (case validateBooking b of
                                  Some e \<Rightarrow> e
                                | None \<Rightarrow> Error ''Appointment date cannot be in the past'')), bookings)"
    by (auto simp add: cancelBooking_def Let_def s)
  have 3: "findByPaymentIntent pid bookings = Some b \<and> pid \<noteq> [] \<and> customer b = userId (reqUser req)
          \<longrightarrow> confirmPayment now bookings req pid (Inr ''succeeded'') mailOk
                = (Inl (Caught (case validateBooking b of
                                  Some e \<Rightarrow> e
                                | None \<Rightarrow> Error ''Appointment date cannot be in the past'')), bookings)"
    by (auto simp add: confirmPayment_def Let_def s)
  have 4: "findByPaymentIntent pid bookings = Some b \<and> paymentStatus (payment b) = PaymentPending
          \<longrightarrow> handlePaymentSucceeded now bookings pid
                = (Some (case validateBooking b of
                           Some e \<Rightarrow> e
                         | None \<Rightarrow> Error ''Appointment date cannot be in the past''), bookings)"
    by (auto simp add: handlePaymentSucceeded_def Let_def s)
  have 5: "findById bid bookings = Some b \<Longrightarrow>
            snd (updateStatus now bookings reqProv bid newStatus newNotes mailOk) = bookings"
    by (auto simp add: updateStatus_def Let_def s split: option.splits)
  have 6: "findById bid bookings = Some b \<Longrightarrow>
            snd (cancelBooking z now bookings req bid reason) = bookings"
    by (auto simp add: cancelBooking_def Let_def s)
  have 7: "findByPaymentIntent pid bookings = Some b \<Longrightarrow>
            snd (confirmPayment now bookings req pid intent mailOk) = bookings"
    by (auto simp add: confirmPayment_def Let_def s split: sum.splits)
  have 8: "findByPaymentIntent pid bookings = Some b \<Longrightarrow>
            snd (handlePaymentSucceeded now bookings pid) = bookings"
    by (auto simp add: handlePaymentSucceeded_def Let_def s)
  from 1 2 3 4 5 6 7 8 show ?thesis by simp
qed

text \<open>
  One hour after midnight of the appointment day, nine hours before the appointment: the
  booking can still be cancelled, and marking it completed or no-show, cancelling it and
  confirming its payment all fail at the save.
\<close>

theorem past_appointment_fails_every_save_witness:
  "appointmentDate exampleBooking < 1717977600000 + 1 * msPerHour \<and>
   canBeCancelled utc exampleBooking (1717977600000 + 1 * msPerHour) \<and>
   updateStatus (1717977600000 + 1 * msPerHour) [exampleBooking] 3 1 Completed None True
     = (Inl (Caught (Error ''Appointment date cannot be in the past'')), [exampleBooking]) \<and>
   updateStatus (1717977600000 + 1 * msPerHour) [exampleBooking] 3 1 NoShow None True
     = (Inl (Caught (Error ''Appointment date cannot be in the past'')), [exampleBooking]) \<and>
   cancelBooking utc (1717977600000 + 1 * msPerHour) [exampleBooking] exampleCustomer 1 None
     = (Inl (Caught (Error ''Appointment date cannot be in the past'')), [exampleBooking]) \<and>
   confirmPayment (1717977600000 + 1 * msPerHour) [exampleBooking] exampleCustomer ''pi_1''
       (Inr ''succeeded'') True
     = (Inl (Caught (Error ''Appointment date cannot be in the past'')), [exampleBooking]) \<and>
   handlePaymentSucceeded (1717977600000 + 1 * msPerHour) [unpaidBooking] ''pi_2''
     = (Some (Error ''Appointment date cannot be in the past''), [unpaidBooking])"
proof -
  let ?now = "1717977600000 + 1 * msPerHour"
  have p: "appointmentDate exampleBooking < ?now"
    by (simp add: exampleBooking_def msPerHour_def)
  have q: "appointmentDate unpaidBooking < ?now"
    by (simp add: unpaidBooking_def pendingBooking_def msPerHour_def)
  have c: "canBeCancelled utc exampleBooking ?now"
    by (simp add: canBeCancelled_def hoursUntilAppointment_def exampleBooking_dateTime msPerHour_def)
      (simp add: exampleBooking_def)
  have f: "findById 1 [exampleBooking] = Some exampleBooking"
    "findByPaymentIntent ''pi_1'' [exampleBooking] = Some exampleBooking"
    "findByPaymentIntent ''pi_2'' [unpaidBooking] = Some unpaidBooking"
    by (simp_all add: findById_def findByPaymentIntent_def exampleBooking_def unpaidBooking_def
        pendingBooking_def)
  have a: "provider exampleBooking = 3" "isCustomer exampleCustomer exampleBooking"
    "customer exampleBooking = userId (reqUser exampleCustomer)"
    "paymentStatus (payment unpaidBooking) = PaymentPending"
    "validateBooking exampleBooking = None" "validateBooking unpaidBooking = None"
    by (simp_all add: isCustomer_def validateBooking_def exampleBooking_def exampleCustomer_def
        unpaidBooking_def pendingBooking_def)
  show ?thesis
    using p c f a
      past_appointment_fails_every_save [OF p, of 1 "[exampleBooking]" 3 Completed None True
        exampleCustomer utc None "''pi_1''" "Inr ''succeeded''"]
      past_appointment_fails_every_save [OF p, of 1 "[exampleBooking]" 3 NoShow None True
        exampleCustomer utc None "''pi_1''" "Inr ''succeeded''"]
      past_appointment_fails_every_save [OF q, of 2 "[unpaidBooking]" 3 NoShow None True
        exampleCustomer utc None "''pi_2''" "Inr ''succeeded''"]
    by (simp add: optionalMaxLength_def)
qed

end
